theory Spec2Isabelle
  imports Complex_Main "HOL-Library.AList"
begin

section \<open>Data model\<close>

text \<open>
  Prices are Python \<open>Decimal\<close> values. Only their order and equality are used by the
  code modelled here, so a finite decimal is taken as the rational number it denotes
  (\<open>NaN\<close> and the infinities are not prices). Python's unbounded \<open>int\<close> is \<^typ>\<open>int\<close>,
  a \<open>str\<close> is a \<^typ>\<open>string\<close>.
\<close>

type_synonym Decimal = rat

text \<open>The exceptions the modelled code can run into.\<close>

datatype py_error = KeyError | ValueError | BrokerError

subsection \<open>Dictionaries\<close>

text \<open>
  A Python \<open>dict\<close> keeps its keys in insertion order, and \<open>save\<close> and the loops over
  \<open>settings.sessions\<close> walk it in that order, so a dictionary is an association list
  with distinct keys. \<open>d.get(k)\<close> is \<^const>\<open>map_of\<close>, \<open>d[k] = v\<close> is
  \<^const>\<open>AList.update\<close> (in place for a known key, appended for a new one).
\<close>

type_synonym ('k, 'v) dict = "('k \<times> 'v) list"

definition setdefault :: "('k, 'v) dict \<Rightarrow> 'k \<Rightarrow> 'v \<Rightarrow> ('k, 'v) dict" where
  "setdefault d k v = (case map_of d k of None \<Rightarrow> AList.update k v d | Some _ \<Rightarrow> d)"

text \<open>\<open>d.get(k)\<close> on a dictionary of optional values: a missing key and a stored
  \<open>None\<close> both read as \<open>None\<close>.\<close>

definition get_optional :: "('k, 'v option) dict \<Rightarrow> 'k \<Rightarrow> 'v option" where
  "get_optional d k = (case map_of d k of None \<Rightarrow> None | Some v \<Rightarrow> v)"

subsection \<open>Wall-clock time\<close>

text \<open>
  A \<open>datetime\<close> as the bot uses it: every value is made by \<open>datetime.now(self._tz)\<close>,
  \<open>replace\<close> or \<open>+ timedelta(days=n)\<close>, all of which carry the same \<open>tzinfo\<close>, and
  Python compares and subtracts such values field by field, as naive wall-clock times.
  The date is kept as its proleptic Gregorian ordinal (\<open>date.toordinal()\<close>, day 1 being
  a Monday).
\<close>

record datetime =
  ordinal :: int
  hour :: int
  minute :: int
  second :: int
  microsecond :: int

definition valid_datetime :: "datetime \<Rightarrow> bool" where
  "valid_datetime t =
     (1 \<le> ordinal t \<and> 0 \<le> hour t \<and> hour t < 24 \<and> 0 \<le> minute t \<and> minute t < 60
      \<and> 0 \<le> second t \<and> second t < 60 \<and> 0 \<le> microsecond t \<and> microsecond t < 1000000)"

definition to_microseconds :: "datetime \<Rightarrow> int" where
  "to_microseconds t =
     (((ordinal t * 24 + hour t) * 60 + minute t) * 60 + second t) * 1000000 + microsecond t"

definition dt_le :: "datetime \<Rightarrow> datetime \<Rightarrow> bool" where
  "dt_le a b = (to_microseconds a \<le> to_microseconds b)"

definition dt_less :: "datetime \<Rightarrow> datetime \<Rightarrow> bool" where
  "dt_less a b = (to_microseconds a < to_microseconds b)"

text \<open>\<open>datetime.weekday()\<close>: Monday is 0, Sunday is 6.\<close>

definition weekday :: "datetime \<Rightarrow> int" where
  "weekday t = (ordinal t + 6) mod 7"

text \<open>\<open>t + timedelta(days=n)\<close>. (The \<open>OverflowError\<close> past year 9999 is left out.)\<close>

definition add_days :: "datetime \<Rightarrow> int \<Rightarrow> datetime" where
  "add_days t n = t\<lparr>ordinal := ordinal t + n\<rparr>"

text \<open>\<open>t.replace(hour=h, minute=m, second=0, microsecond=0)\<close>; a field out of range
  raises \<open>ValueError\<close>.\<close>

definition replace_hm :: "datetime \<Rightarrow> int \<Rightarrow> int \<Rightarrow> py_error + datetime" where
  "replace_hm t h m =
     (if 0 \<le> h \<and> h < 24 \<and> 0 \<le> m \<and> m < 60
      then Inr (t\<lparr>hour := h, minute := m, second := 0, microsecond := 0\<rparr>)
      else Inl ValueError)"

text \<open>
  \<open>(a - b).total_seconds()\<close>. Python returns the nearest binary float to this quotient;
  the rounding is not part of the model, seconds are exact rationals here.
\<close>

definition total_seconds :: "datetime \<Rightarrow> datetime \<Rightarrow> rat" where
  "total_seconds a b = of_int (to_microseconds a - to_microseconds b) / 1000000"

text \<open>\<open>min(ts)\<close> on a non-empty list: the first smallest element.\<close>

fun min_datetime :: "datetime \<Rightarrow> datetime list \<Rightarrow> datetime" where
  "min_datetime best [] = best"
| "min_datetime best (t # ts) = min_datetime (if dt_less t best then t else best) ts"

subsection \<open>Configuration (\<open>platinum_bot/config.py\<close>)\<close>

record SessionConfig =
  name :: string
  ref_hour :: int
  start_hour :: int
  end_hour :: int
  target_points :: Decimal
  stop_points :: Decimal

text \<open>The shipped table \<open>SESSIONS\<close>; \<open>0.2\<close> and \<open>0.5\<close> reach the code through
  \<open>Decimal(str(...))\<close>, that is as one fifth and one half.\<close>

definition SESSIONS :: "(int, SessionConfig) dict" where
  "SESSIONS =
     [(22, \<lparr>name = ''London'', ref_hour = 22, start_hour = 23, end_hour = 23,
            target_points = 2 / 10, stop_points = 5 / 10\<rparr>)]"

text \<open>The default of \<open>Settings.entry_delay_minutes\<close>.\<close>

definition entry_delay_minutes :: int where
  "entry_delay_minutes = 5"

subsection \<open>Signals and state (\<open>platinum_bot/strategy.py\<close>, \<open>platinum_bot/state.py\<close>)\<close>

record EntrySignal =
  side :: string
  price :: Decimal

record ActiveTrade =
  side :: string
  tp :: Decimal
  sl :: Decimal
  sess_name :: string
  cutoff_h :: int
  sess_id :: int
  entry_price :: Decimal

record ExitSignal =
  reason :: string
  trade :: ActiveTrade
  exit_price :: Decimal

record SessionTradeState =
  count :: int
  directions :: "string list"

record BotState =
  last_reset_date :: "string option"
  trades_taken :: "(int, SessionTradeState) dict"
  active_trades :: "ActiveTrade list"
  ref_levels :: "(int, (string, Decimal) dict option) dict"
  session_trade_eligible_time :: "(int, datetime option) dict"
  fetch_attempted :: "(int, bool) dict"
  scanning_started :: "(int, bool) dict"
  reconnect_count :: int

text \<open>\<open>BotState()\<close> with every field at its default.\<close>

definition BotState_default :: BotState where
  "BotState_default =
     \<lparr>last_reset_date = None, trades_taken = [], active_trades = [], ref_levels = [],
      session_trade_eligible_time = [], fetch_attempted = [], scanning_started = [],
      reconnect_count = 0\<rparr>"

section \<open>Signal evaluator (\<open>platinum_bot/strategy.py\<close>)\<close>

text \<open>\<open>BreakoutStrategy.check_entry_signal\<close>; \<open>None\<close> is Python's \<open>None\<close>.\<close>

definition check_entry_signal :: "Decimal \<Rightarrow> Decimal \<Rightarrow> Decimal \<Rightarrow> EntrySignal option" where
  "check_entry_signal close_price high_level low_level =
     (if close_price > high_level
      then Some \<lparr>EntrySignal.side = ''LONG'', price = close_price\<rparr>
      else if close_price < low_level
      then Some \<lparr>EntrySignal.side = ''SHORT'', price = close_price\<rparr>
      else None)"

text \<open>
  \<open>BreakoutStrategy.check_exit_signals\<close>. The cutoff test comes first; every side other
  than \<open>"LONG"\<close> takes the \<open>else\<close> branch.
\<close>

definition check_exit_signals :: "ActiveTrade \<Rightarrow> Decimal \<Rightarrow> int \<Rightarrow> ExitSignal option" where
  "check_exit_signals tr close_price current_hour =
     (if current_hour \<ge> cutoff_h tr
      then Some \<lparr>reason = ''CUTOFF'', trade = tr, exit_price = close_price\<rparr>
      else if ActiveTrade.side tr = ''LONG''
      then (if close_price \<ge> tp tr
            then Some \<lparr>reason = ''TARGET'', trade = tr, exit_price = close_price\<rparr>
            else if close_price \<le> sl tr
            then Some \<lparr>reason = ''STOP'', trade = tr, exit_price = close_price\<rparr>
            else None)
      else (if close_price \<le> tp tr
            then Some \<lparr>reason = ''TARGET'', trade = tr, exit_price = close_price\<rparr>
            else if close_price \<ge> sl tr
            then Some \<lparr>reason = ''STOP'', trade = tr, exit_price = close_price\<rparr>
            else None))"

section \<open>Risk gate (\<open>platinum_bot/risk_management.py\<close>)\<close>

definition is_in_session_window :: "SessionConfig \<Rightarrow> int \<Rightarrow> bool" where
  "is_in_session_window cfg current_hour =
     (start_hour cfg \<le> current_hour \<and> current_hour < end_hour cfg)"

definition is_trade_eligible ::
  "int \<Rightarrow> (int, SessionTradeState) dict \<Rightarrow> datetime \<Rightarrow> datetime option \<Rightarrow> bool" where
  "is_trade_eligible session_id taken now eligible_time =
     (case map_of taken session_id of
        None \<Rightarrow> False
      | Some session_trades \<Rightarrow>
          if count session_trades \<ge> 2 then False
          else (case eligible_time of
                  None \<Rightarrow> False
                | Some e \<Rightarrow> if dt_less now e then False else True))"

text \<open>\<open>taken_dirs[0]\<close> is read only when the list has exactly one element, so it
  cannot raise.\<close>

definition can_take_direction ::
  "int \<Rightarrow> string \<Rightarrow> (int, SessionTradeState) dict \<Rightarrow> bool" where
  "can_take_direction session_id direction taken =
     (case map_of taken session_id of
        None \<Rightarrow> False
      | Some session_trades \<Rightarrow>
          (let taken_dirs = directions session_trades in
           if length taken_dirs = 0 then True
           else if length taken_dirs = 1 \<and> direction \<noteq> taken_dirs ! 0 then True
           else False))"

section \<open>State store (\<open>platinum_bot/state.py\<close>)\<close>

text \<open>\<open>StateManager.init_session_maps\<close>: five \<open>setdefault\<close> calls per session id.\<close>

fun init_session_maps :: "BotState \<Rightarrow> int list \<Rightarrow> BotState" where
  "init_session_maps state [] = state"
| "init_session_maps state (sid # session_ids) =
     init_session_maps
       (state\<lparr>trades_taken := setdefault (trades_taken state) sid \<lparr>count = 0, directions = []\<rparr>,
              ref_levels := setdefault (ref_levels state) sid None,
              session_trade_eligible_time := setdefault (session_trade_eligible_time state) sid None,
              fetch_attempted := setdefault (fetch_attempted state) sid False,
              scanning_started := setdefault (scanning_started state) sid False\<rparr>)
       session_ids"

subsection \<open>The state file\<close>

text \<open>
  The JSON document of the state file, in the shape \<open>save\<close> writes it: session ids are
  string keys, prices and times are strings, and a key that is missing from the document
  reads like the default \<open>load\<close> passes to \<open>data.get\<close> (an empty collection, or \<open>None\<close>
  for the date). There is no entry for \<open>reconnect_count\<close> and none for
  \<open>scanning_started\<close>.
\<close>

record JsonTrade =
  json_side :: string
  json_tp :: string
  json_sl :: string
  json_sess_name :: string
  json_cutoff_h :: int
  json_sess_id :: int
  json_entry_price :: string

record StateFile =
  file_last_reset_date :: "string option"
  file_trades_taken :: "(string, SessionTradeState) dict"
  file_active_trades :: "JsonTrade list"
  file_ref_levels :: "(string, (string, string) dict option) dict"
  file_session_trade_eligible_time :: "(string, string option) dict"
  file_fetch_attempted :: "(string, bool) dict"

text \<open>What \<open>load\<close> finds at the file path: nothing, something \<open>open\<close> or \<open>json.load\<close>
  raises on, or a document.\<close>

datatype file_status = Missing | Unreadable | Parsed StateFile

text \<open>\<open>str(k)\<close> for an \<open>int\<close>: decimal digits, with a minus sign for a negative number.\<close>

fun digits :: "nat \<Rightarrow> string" where
  "digits n = (if n < 10 then [''0123456789'' ! n]
               else digits (n div 10) @ [''0123456789'' ! (n mod 10)])"

declare digits.simps [simp del]

definition str_int :: "int \<Rightarrow> string" where
  "str_int i = (if i < 0 then CHR ''-'' # digits (nat (- i)) else digits (nat i))"

text \<open>
  \<open>StateManager.save\<close>: the document handed to \<open>json.dump\<close>. \<open>str\<close> of a \<open>Decimal\<close> and
  \<open>datetime.isoformat\<close> are library functions and stay parameters. A failing write is
  logged and swallowed by the source and leaves the state itself untouched.
\<close>

definition save :: "(Decimal \<Rightarrow> string) \<Rightarrow> (datetime \<Rightarrow> string) \<Rightarrow> BotState \<Rightarrow> StateFile" where
  "save str_decimal isoformat state =
     \<lparr>file_last_reset_date = last_reset_date state,
      file_trades_taken =
        map (\<lambda>(k, v). (str_int k, \<lparr>count = count v, directions = directions v\<rparr>))
          (trades_taken state),
      file_active_trades =
        map (\<lambda>t. \<lparr>json_side = ActiveTrade.side t, json_tp = str_decimal (tp t),
                   json_sl = str_decimal (sl t), json_sess_name = sess_name t,
                   json_cutoff_h = cutoff_h t, json_sess_id = sess_id t,
                   json_entry_price = str_decimal (entry_price t)\<rparr>)
          (active_trades state),
      file_ref_levels =
        map (\<lambda>(k, v). (str_int k,
               case v of None \<Rightarrow> None
               | Some lv \<Rightarrow> if lv = [] then None
                            else Some (map (\<lambda>(pk, pv). (pk, str_decimal pv)) lv)))
          (ref_levels state),
      file_session_trade_eligible_time =
        map (\<lambda>(k, v). (str_int k, map_option isoformat v))
          (session_trade_eligible_time state),
      file_fetch_attempted = map (\<lambda>(k, v). (str_int k, v)) (fetch_attempted state)\<rparr>"

subsection \<open>Loading\<close>

text \<open>
  \<open>load\<close> mutates \<open>state\<close> inside one \<open>try\<close> block and returns it after the \<open>except\<close>
  clause as well, so an exception in the middle of a loop keeps what was restored up to
  that point. Each loop therefore yields the state together with how it ended.
\<close>

datatype 'a attempt = Done 'a | Failed 'a

definition and_then :: "'a attempt \<Rightarrow> ('a \<Rightarrow> 'a attempt) \<Rightarrow> 'a attempt" where
  "and_then a f = (case a of Done x \<Rightarrow> f x | Failed x \<Rightarrow> Failed x)"

definition outcome :: "'a attempt \<Rightarrow> 'a" where
  "outcome a = (case a of Done x \<Rightarrow> x | Failed x \<Rightarrow> x)"

text \<open>
  The conversions \<open>int(k)\<close>, \<open>Decimal(s)\<close> and \<open>datetime.fromisoformat(s)\<close> are Python
  library functions; they are parameters here, \<open>None\<close> standing for the exception they
  raise on a string they do not accept.
\<close>

fun load_trades_taken ::
  "(string \<Rightarrow> int option) \<Rightarrow> (string, SessionTradeState) dict \<Rightarrow> BotState \<Rightarrow> BotState attempt" where
  "load_trades_taken int_of_str [] state = Done state"
| "load_trades_taken int_of_str ((k, v) # items) state =
     (case int_of_str k of
        None \<Rightarrow> Failed state
      | Some sid \<Rightarrow>
          load_trades_taken int_of_str items
            (if map_of (trades_taken state) sid \<noteq> None
             then state\<lparr>trades_taken :=
                    AList.update sid \<lparr>count = count v, directions = directions v\<rparr>
                      (trades_taken state)\<rparr>
             else state))"

fun load_active_trades ::
  "(string \<Rightarrow> Decimal option) \<Rightarrow> JsonTrade list \<Rightarrow> BotState \<Rightarrow> BotState attempt" where
  "load_active_trades decimal_of_str [] state = Done state"
| "load_active_trades decimal_of_str (t # ts) state =
     (case decimal_of_str (json_tp t) of
        None \<Rightarrow> Failed state
      | Some tp_v \<Rightarrow>
     (case decimal_of_str (json_sl t) of
        None \<Rightarrow> Failed state
      | Some sl_v \<Rightarrow>
     (case decimal_of_str (json_entry_price t) of
        None \<Rightarrow> Failed state
      | Some entry_v \<Rightarrow>
          load_active_trades decimal_of_str ts
            (state\<lparr>active_trades := active_trades state @
               [\<lparr>ActiveTrade.side = json_side t, tp = tp_v, sl = sl_v,
                 sess_name = json_sess_name t, cutoff_h = json_cutoff_h t,
                 sess_id = json_sess_id t, entry_price = entry_v\<rparr>]\<rparr>))))"

text \<open>The comprehension \<open>{pk: Decimal(pv) for pk, pv in v.items()}\<close>.\<close>

fun convert_levels ::
  "(string \<Rightarrow> Decimal option) \<Rightarrow> (string, string) dict \<Rightarrow> (string, Decimal) dict option" where
  "convert_levels decimal_of_str [] = Some []"
| "convert_levels decimal_of_str ((pk, pv) # items) =
     (case decimal_of_str pv of
        None \<Rightarrow> None
      | Some d \<Rightarrow> map_option (\<lambda>r. (pk, d) # r) (convert_levels decimal_of_str items))"

fun load_ref_levels ::
  "(string \<Rightarrow> int option) \<Rightarrow> (string \<Rightarrow> Decimal option) \<Rightarrow>
   (string, (string, string) dict option) dict \<Rightarrow> BotState \<Rightarrow> BotState attempt" where
  "load_ref_levels int_of_str decimal_of_str [] state = Done state"
| "load_ref_levels int_of_str decimal_of_str ((k, v) # items) state =
     (case int_of_str k of
        None \<Rightarrow> Failed state
      | Some sid \<Rightarrow>
          (case v of
             None \<Rightarrow> load_ref_levels int_of_str decimal_of_str items state
           | Some lv \<Rightarrow>
               if lv = [] then load_ref_levels int_of_str decimal_of_str items state
               else (case convert_levels decimal_of_str lv of
                       None \<Rightarrow> Failed state
                     | Some levels \<Rightarrow>
                         load_ref_levels int_of_str decimal_of_str items
                           (state\<lparr>ref_levels :=
                              AList.update sid (Some levels) (ref_levels state)\<rparr>))))"

fun load_eligible_times ::
  "(string \<Rightarrow> int option) \<Rightarrow> (string \<Rightarrow> datetime option) \<Rightarrow>
   (string, string option) dict \<Rightarrow> BotState \<Rightarrow> BotState attempt" where
  "load_eligible_times int_of_str fromisoformat [] state = Done state"
| "load_eligible_times int_of_str fromisoformat ((k, v) # items) state =
     (case int_of_str k of
        None \<Rightarrow> Failed state
      | Some sid \<Rightarrow>
          (case v of
             None \<Rightarrow> load_eligible_times int_of_str fromisoformat items state
           | Some text_v \<Rightarrow>
               if text_v = [] then load_eligible_times int_of_str fromisoformat items state
               else (case fromisoformat text_v of
                       None \<Rightarrow> Failed state
                     | Some t \<Rightarrow>
                         load_eligible_times int_of_str fromisoformat items
                           (state\<lparr>session_trade_eligible_time :=
                              AList.update sid (Some t) (session_trade_eligible_time state)\<rparr>))))"

fun load_fetch_attempted ::
  "(string \<Rightarrow> int option) \<Rightarrow> (string, bool) dict \<Rightarrow> BotState \<Rightarrow> BotState attempt" where
  "load_fetch_attempted int_of_str [] state = Done state"
| "load_fetch_attempted int_of_str ((k, v) # items) state =
     (case int_of_str k of
        None \<Rightarrow> Failed state
      | Some sid \<Rightarrow>
          load_fetch_attempted int_of_str items
            (state\<lparr>fetch_attempted := AList.update sid v (fetch_attempted state)\<rparr>))"

text \<open>
  \<open>StateManager.load\<close>. \<open>today_str\<close> is \<open>str(datetime.now(timezone).date())\<close>, read from
  the clock by the source.
\<close>

definition load ::
  "(string \<Rightarrow> int option) \<Rightarrow> (string \<Rightarrow> Decimal option) \<Rightarrow> (string \<Rightarrow> datetime option) \<Rightarrow>
   int list \<Rightarrow> string \<Rightarrow> file_status \<Rightarrow> BotState" where
  "load int_of_str decimal_of_str fromisoformat session_ids today_str found =
     (let state = init_session_maps BotState_default session_ids in
      case found of
        Missing \<Rightarrow> state
      | Unreadable \<Rightarrow> state
      | Parsed data \<Rightarrow>
          if file_last_reset_date data \<noteq> Some today_str then state
          else outcome
            (and_then (and_then (and_then (and_then
               (load_trades_taken int_of_str (file_trades_taken data)
                  (state\<lparr>last_reset_date := Some today_str\<rparr>))
               (load_active_trades decimal_of_str (file_active_trades data)))
               (load_ref_levels int_of_str decimal_of_str (file_ref_levels data)))
               (load_eligible_times int_of_str fromisoformat
                  (file_session_trade_eligible_time data)))
               (load_fetch_attempted int_of_str (file_fetch_attempted data))))"

section \<open>Orchestrator (\<open>main.py\<close>)\<close>

text \<open>
  \<open>TradingBot._reset_daily_state\<close>: \<open>self._state\<close> is replaced by a new \<open>BotState\<close> that
  carries only today's date, then the session maps are filled in. The state so far is
  an argument because the assignment discards it. The source goes on to save the new
  state and to send a notification.
\<close>

definition reset_daily_state :: "int list \<Rightarrow> string \<Rightarrow> BotState \<Rightarrow> BotState" where
  "reset_daily_state session_ids today_str old_state =
     init_session_maps (BotState_default\<lparr>last_reset_date := Some today_str\<rparr>) session_ids"

text \<open>\<open>self._state.reconnect_count += 1\<close>, once per connection in \<open>_run_monitor_cycle\<close>.\<close>

definition count_reconnect :: "BotState \<Rightarrow> BotState" where
  "count_reconnect state = state\<lparr>reconnect_count := reconnect_count state + 1\<rparr>"

subsection \<open>Entry processing\<close>

text \<open>
  What \<open>place_bracket_order\<close> hands back: a dictionary with an \<open>"error"\<close> entry, a
  dictionary with the fill, target and stop prices, or an exception of the broker
  connection. The broker is outside the program, so its answers are an input of the
  model: \<open>broker s_id buy\<close> is the answer to the order placed for session \<open>s_id\<close> during
  the tick at hand.
\<close>

datatype broker_reply = OrderError string | Filled Decimal Decimal Decimal | BrokerRaised

text \<open>
  The loop of \<open>TradingBot._process_entries\<close> over \<open>settings.sessions.items()\<close>, with the
  flag \<open>in_active_window\<close> and the state as accumulators. An exception leaves the loop
  with the state as mutated so far. Notifications, log lines and the state file written
  after a new trade are not part of the result.
\<close>

fun process_entries_loop ::
  "(int \<Rightarrow> bool \<Rightarrow> broker_reply) \<Rightarrow> Decimal \<Rightarrow> datetime \<Rightarrow> int \<Rightarrow>
   (int, SessionConfig) dict \<Rightarrow> bool \<Rightarrow> BotState \<Rightarrow> BotState \<times> (py_error + bool)" where
  "process_entries_loop broker c_close now_la curr_h [] in_active_window state =
     (state, Inr in_active_window)"
| "process_entries_loop broker c_close now_la curr_h ((s_id, cfg) # sessions) in_active_window state =
     (if \<not> is_in_session_window cfg curr_h
      then process_entries_loop broker c_close now_la curr_h sessions in_active_window state
      else if \<not> is_trade_eligible s_id (trades_taken state) now_la
                  (get_optional (session_trade_eligible_time state) s_id)
      then process_entries_loop broker c_close now_la curr_h sessions True state
      else (case get_optional (ref_levels state) s_id of
        None \<Rightarrow> process_entries_loop broker c_close now_la curr_h sessions True state
      | Some lvls \<Rightarrow>
          if lvls = []
          then process_entries_loop broker c_close now_la curr_h sessions True state
          else (case map_of lvls ''high'' of
            None \<Rightarrow> (state, Inl KeyError)
          | Some high \<Rightarrow>
          (case map_of lvls ''low'' of
            None \<Rightarrow> (state, Inl KeyError)
          | Some low \<Rightarrow>
          (case check_entry_signal c_close high low of
            None \<Rightarrow> process_entries_loop broker c_close now_la curr_h sessions True state
          | Some signal \<Rightarrow>
              if \<not> can_take_direction s_id (EntrySignal.side signal) (trades_taken state)
              then process_entries_loop broker c_close now_la curr_h sessions True state
              else (case broker s_id (EntrySignal.side signal = ''LONG'') of
                BrokerRaised \<Rightarrow> (state, Inl BrokerError)
              | OrderError msg \<Rightarrow>
                  process_entries_loop broker c_close now_la curr_h sessions True state
              | Filled fill_price target_price stop_price \<Rightarrow>
                  (let new_trade =
                         \<lparr>ActiveTrade.side = EntrySignal.side signal, tp = target_price,
                          sl = stop_price, sess_name = name cfg, cutoff_h = end_hour cfg,
                          sess_id = s_id, entry_price = fill_price\<rparr>;
                       state1 = state\<lparr>active_trades := active_trades state @ [new_trade]\<rparr>
                   in case map_of (trades_taken state1) s_id of
                        None \<Rightarrow> (state1, Inl KeyError)
                      | Some counter \<Rightarrow>
                          process_entries_loop broker c_close now_la curr_h sessions True
                            (state1\<lparr>trades_taken :=
                               AList.update s_id
                                 \<lparr>count = count counter + 1,
                                  directions = directions counter @ [EntrySignal.side signal]\<rparr>
                                 (trades_taken state1)\<rparr>))))))))"

definition process_entries ::
  "(int, SessionConfig) dict \<Rightarrow> (int \<Rightarrow> bool \<Rightarrow> broker_reply) \<Rightarrow> Decimal \<Rightarrow> datetime \<Rightarrow> int \<Rightarrow>
   BotState \<Rightarrow> BotState \<times> (py_error + bool)" where
  "process_entries sessions broker c_close now_la curr_h state =
     process_entries_loop broker c_close now_la curr_h sessions False state"

subsection \<open>Background level loader\<close>

text \<open>
  What the fetch of the reference hour's candle gives: the \<open>high\<close> and \<open>low\<close> of the
  candle, \<open>None\<close>, or an exception while the temporary streamer is open (which the
  source logs and passes over). Like the broker's answers it is an input of the model.
\<close>

datatype fetch_reply = Fetched "(Decimal \<times> Decimal) option" | FetchRaised

text \<open>
  One pass of the \<open>for\<close> loop in \<open>TradingBot._check_levels_periodically\<close> at the time
  \<open>now_la\<close>. An exception is caught by the enclosing \<open>try\<close> of the source, which ends
  the pass and keeps the state as mutated so far.
\<close>

fun check_levels ::
  "(int \<Rightarrow> fetch_reply) \<Rightarrow> int \<Rightarrow> datetime \<Rightarrow> (int, SessionConfig) dict \<Rightarrow> BotState \<Rightarrow>
   BotState \<times> (py_error + unit)" where
  "check_levels fetch delay now_la [] state = (state, Inr ())"
| "check_levels fetch delay now_la ((s_id, cfg) # sessions) state =
     (if hour now_la < start_hour cfg then check_levels fetch delay now_la sessions state
      else if get_optional (ref_levels state) s_id \<noteq> None
      then check_levels fetch delay now_la sessions state
      else if (case map_of (fetch_attempted state) s_id of None \<Rightarrow> False | Some b \<Rightarrow> b)
      then check_levels fetch delay now_la sessions state
      else
        (let state1 =
               (case fetch s_id of
                  Fetched None \<Rightarrow> state\<lparr>ref_levels := AList.update s_id None (ref_levels state)\<rparr>
                | Fetched (Some (h, l)) \<Rightarrow>
                    state\<lparr>ref_levels :=
                      AList.update s_id (Some [(''high'', h), (''low'', l)]) (ref_levels state)\<rparr>
                | FetchRaised \<Rightarrow> state);
             state2 = state1\<lparr>fetch_attempted := AList.update s_id True (fetch_attempted state1)\<rparr>
         in case map_of (ref_levels state2) s_id of
              None \<Rightarrow> (state2, Inl KeyError)
            | Some None \<Rightarrow> check_levels fetch delay now_la sessions state2
            | Some (Some lvls) \<Rightarrow>
                if lvls = [] then check_levels fetch delay now_la sessions state2
                else (case replace_hm now_la (start_hour cfg) delay of
                        Inl e \<Rightarrow> (state2, Inl e)
                      | Inr eligible_time \<Rightarrow>
                          check_levels fetch delay now_la sessions
                            (state2\<lparr>session_trade_eligible_time :=
                                AList.update s_id (Some eligible_time)
                                  (session_trade_eligible_time state2),
                              scanning_started :=
                                AList.update s_id True (scanning_started state2)\<rparr>))))"

subsection \<open>The bot's day as a sequence of events\<close>

text \<open>
  The three things that change the state while the bot runs: a minute candle routed
  through entry processing, a pass of the background level loader, and the daily reset.
  Each event carries what the outside world contributes to it.
\<close>

datatype event =
    Candle "int \<Rightarrow> bool \<Rightarrow> broker_reply" Decimal datetime
  | LevelCheck "int \<Rightarrow> fetch_reply" datetime
  | DailyReset string

fun apply_event :: "(int, SessionConfig) dict \<Rightarrow> int \<Rightarrow> BotState \<Rightarrow> event \<Rightarrow> BotState" where
  "apply_event sessions delay state (Candle broker c_close now_la) =
     fst (process_entries sessions broker c_close now_la (hour now_la) state)"
| "apply_event sessions delay state (LevelCheck fetch now_la) =
     fst (check_levels fetch delay now_la sessions state)"
| "apply_event sessions delay state (DailyReset today_str) =
     reset_daily_state (map fst sessions) today_str state"

definition run_events ::
  "(int, SessionConfig) dict \<Rightarrow> int \<Rightarrow> BotState \<Rightarrow> event list \<Rightarrow> BotState" where
  "run_events sessions delay state events = foldl (apply_event sessions delay) state events"

subsection \<open>Supervisor\<close>

text \<open>
  \<open>TradingBot.start\<close>. How a monitor cycle ends is an input: it returns, or it raises
  an \<open>Exception\<close>. The effects of one pass of the \<open>while True\<close> body are listed in the
  order the source performs them.
\<close>

datatype cycle_result = CleanReturn | RaisedException

datatype effect = Send string | Sleep int

definition max_consecutive_errors :: int where
  "max_consecutive_errors = 10"

text \<open>One pass of the loop body: the new counter, the effects, and whether the loop goes
  on (\<open>False\<close> after \<open>break\<close>).\<close>

definition start_iteration :: "int \<Rightarrow> cycle_result \<Rightarrow> int \<times> effect list \<times> bool" where
  "start_iteration consecutive_errors r =
     (case r of
        CleanReturn \<Rightarrow> (0, [Sleep 2], True)
      | RaisedException \<Rightarrow>
          (let errors = consecutive_errors + 1;
               notice = (if errors = 1 \<or> errors mod 3 = 0
                         then [Send (''Bot Error #'' @ str_int errors)] else [])
           in if errors \<ge> max_consecutive_errors
              then (errors,
                    notice @ [Send (''STOPPED after '' @ str_int max_consecutive_errors @ '' errors'')],
                    False)
              else (errors,
                    notice @ [Sleep (min (30 * 2 ^ nat (errors - 1)) 300), Sleep 2],
                    True)))"

text \<open>The loop, driven by the results of the successive monitor cycles: the effects
  performed, the counter, and whether the loop is still running.\<close>

fun start :: "int \<Rightarrow> cycle_result list \<Rightarrow> effect list \<times> int \<times> bool" where
  "start consecutive_errors [] = ([], consecutive_errors, True)"
| "start consecutive_errors (r # rs) =
     (case start_iteration consecutive_errors r of
        (errors, effects, running) \<Rightarrow>
          if running
          then (case start errors rs of (later, final, still) \<Rightarrow> (effects @ later, final, still))
          else (effects, errors, False))"

subsection \<open>Scheduling\<close>

text \<open>
  The loop of \<open>TradingBot._run_monitor_cycle\<close> that computes \<open>should_be_scanning\<close>.
  \<open>self._state.trades_taken[s_id]\<close> raises \<open>KeyError\<close> for a session without a
  counter; it is read only for a session whose window is open.
\<close>

fun should_be_scanning ::
  "int \<Rightarrow> BotState \<Rightarrow> (int, SessionConfig) dict \<Rightarrow> bool \<Rightarrow> py_error + bool" where
  "should_be_scanning curr_h state [] flag = Inr flag"
| "should_be_scanning curr_h state ((s_id, cfg) # sessions) flag =
     (if start_hour cfg \<le> curr_h \<and> curr_h < end_hour cfg
      then (case map_of (trades_taken state) s_id of
              None \<Rightarrow> Inl KeyError
            | Some counter \<Rightarrow>
                should_be_scanning curr_h state sessions
                  (if count counter < 2 then True else flag))
      else should_be_scanning curr_h state sessions flag)"

text \<open>
  \<open>TradingBot._wait_until_next_event\<close>, at the clock reading \<open>now\<close>. First the loop
  that collects each session's next start, then \<open>min\<close> (which raises \<open>ValueError\<close> on
  an empty list), then the function itself.
\<close>

fun session_events :: "datetime \<Rightarrow> SessionConfig list \<Rightarrow> py_error + datetime list" where
  "session_events now [] = Inr []"
| "session_events now (cfg # cfgs) =
     (case replace_hm now (start_hour cfg) 0 of
        Inl e \<Rightarrow> Inl e
      | Inr t \<Rightarrow>
          (case session_events now cfgs of
             Inl e \<Rightarrow> Inl e
           | Inr ts \<Rightarrow> Inr ((if dt_le t now then add_days t 1 else t) # ts)))"

fun py_min :: "datetime list \<Rightarrow> py_error + datetime" where
  "py_min [] = Inl ValueError"
| "py_min (t # ts) = Inr (min_datetime t ts)"

definition wait_until_next_event ::
  "(int, SessionConfig) dict \<Rightarrow> datetime \<Rightarrow> py_error + rat" where
  "wait_until_next_event sessions now =
     (if (weekday now = 4 \<and> hour now \<ge> 14) \<or> weekday now = 5
      then (case replace_hm (add_days now (6 - weekday now)) 15 0 of
              Inl e \<Rightarrow> Inl e
            | Inr sunday_open \<Rightarrow> Inr (total_seconds sunday_open now))
      else (case session_events now (map snd sessions) of
              Inl e \<Rightarrow> Inl e
            | Inr future_events \<Rightarrow>
                (case replace_hm now 23 59 of
                   Inl e \<Rightarrow> Inl e
                 | Inr t \<Rightarrow>
                     (let midnight_reset = (if dt_le t now then add_days t 1 else t)
                      in case py_min (future_events @ [midnight_reset]) of
                           Inl e \<Rightarrow> Inl e
                         | Inr next_event \<Rightarrow> Inr (total_seconds next_event now + 30)))))"

text \<open>
  The decision of \<open>_run_monitor_cycle\<close> that follows: sleep until the next event, or go
  on and connect. \<open>curr_h\<close> is the hour read at the start of the cycle, \<open>now\<close> the
  clock reading inside \<open>_wait_until_next_event\<close>.
\<close>

datatype cycle_decision = SleepFor rat | Connect

definition sleep_or_connect ::
  "(int, SessionConfig) dict \<Rightarrow> int \<Rightarrow> datetime \<Rightarrow> BotState \<Rightarrow> py_error + cycle_decision" where
  "sleep_or_connect sessions curr_h now state =
     (case should_be_scanning curr_h state sessions False of
        Inl e \<Rightarrow> Inl e
      | Inr scanning \<Rightarrow>
          if \<not> scanning \<and> active_trades state = []
          then (case wait_until_next_event sessions now of
                  Inl e \<Rightarrow> Inl e
                | Inr wait_sec \<Rightarrow> if wait_sec > 60 then Inr (SleepFor wait_sec) else Inr Connect)
          else Inr Connect)"

subsection \<open>What the next event is\<close>

text \<open>
  The specification's words for the instants the delay is measured to, stated on their
  own: the next occurrence of a time of day \<open>h:m:00\<close> is the earliest instant after
  \<open>now\<close> that shows this time, and the next opening after a weekend is the earliest
  Sunday 15:00 after \<open>now\<close>.
\<close>

definition on_the_clock :: "datetime \<Rightarrow> int \<Rightarrow> int \<Rightarrow> bool" where
  "on_the_clock t h m =
     (valid_datetime t \<and> hour t = h \<and> minute t = m \<and> second t = 0 \<and> microsecond t = 0)"

definition next_occurrence :: "datetime \<Rightarrow> int \<Rightarrow> int \<Rightarrow> datetime \<Rightarrow> bool" where
  "next_occurrence now h m t =
     (on_the_clock t h m \<and> dt_less now t
      \<and> (\<forall>u. on_the_clock u h m \<and> dt_less now u \<longrightarrow> dt_le t u))"

definition next_sunday_open :: "datetime \<Rightarrow> datetime \<Rightarrow> bool" where
  "next_sunday_open now t =
     (on_the_clock t 15 0 \<and> weekday t = 6 \<and> dt_less now t
      \<and> (\<forall>u. on_the_clock u 15 0 \<and> weekday u = 6 \<and> dt_less now u \<longrightarrow> dt_le t u))"

subsection \<open>The counter invariant\<close>

text \<open>Every session counter of a state counts what its directions list holds, and at
  most two trades.\<close>

definition counters_ok :: "BotState \<Rightarrow> bool" where
  "counters_ok state =
     (\<forall>sid counter. map_of (trades_taken state) sid = Some counter \<longrightarrow>
        count counter = int (length (directions counter)) \<and> count counter \<le> 2)"

section \<open>Concrete inputs\<close>

text \<open>Inputs at which the properties below are evaluated.\<close>

definition long_trade :: ActiveTrade where
  "long_trade = \<lparr>ActiveTrade.side = ''LONG'', tp = 105, sl = 95, sess_name = ''London'',
     cutoff_h = 8, sess_id = 22, entry_price = 100\<rparr>"

definition short_trade :: ActiveTrade where
  "short_trade = \<lparr>ActiveTrade.side = ''SHORT'', tp = 95, sl = 105, sess_name = ''London'',
     cutoff_h = 8, sess_id = 22, entry_price = 100\<rparr>"

text \<open>
  Stand-ins for the library conversions at the inputs below: a reader of plain decimal
  numerals (on which it agrees with Python's \<open>int\<close>), and conversions for prices and
  times that are never called because the documents below hold no price and no time.
\<close>

fun nat_of_digits :: "nat \<Rightarrow> string \<Rightarrow> nat option" where
  "nat_of_digits acc [] = Some acc"
| "nat_of_digits acc (c # cs) =
     (case map_of (zip ''0123456789'' [0, 1, 2, 3, 4, 5, 6, 7, 8, 9]) c of
        None \<Rightarrow> None
      | Some d \<Rightarrow> nat_of_digits (10 * acc + d) cs)"

definition decimal_int_of_str :: "string \<Rightarrow> int option" where
  "decimal_int_of_str s =
     (case s of
        [] \<Rightarrow> None
      | c # cs \<Rightarrow>
          if c = CHR ''-''
          then (if cs = [] then None else map_option (\<lambda>n. - int n) (nat_of_digits 0 cs))
          else map_option int (nat_of_digits 0 s))"

definition no_decimal_of_str :: "string \<Rightarrow> Decimal option" where
  "no_decimal_of_str s = None"

definition no_fromisoformat :: "string \<Rightarrow> datetime option" where
  "no_fromisoformat s = None"

text \<open>A state file written the day before, with both trades of the session taken.\<close>

definition stale_file :: StateFile where
  "stale_file =
     \<lparr>file_last_reset_date = Some ''2026-11-03'',
      file_trades_taken = [(''22'', \<lparr>count = 2, directions = [''LONG'', ''SHORT'']\<rparr>)],
      file_active_trades = [], file_ref_levels = [], file_session_trade_eligible_time = [],
      file_fetch_attempted = [(''22'', True)]\<rparr>"

text \<open>A state file of today that holds nothing but the counter \<open>v\<close> under the key \<open>k\<close>.\<close>

definition counter_file :: "string \<Rightarrow> string \<Rightarrow> SessionTradeState \<Rightarrow> StateFile" where
  "counter_file today_str k v =
     \<lparr>file_last_reset_date = Some today_str,
      file_trades_taken = [(k, v)],
      file_active_trades = [], file_ref_levels = [], file_session_trade_eligible_time = [],
      file_fetch_attempted = []\<rparr>"

text \<open>
  The shipped session with its window ending at 24 instead of 23, a time of day on
  2026-11-04, a fetch that finds the levels 100 and 90, and a broker that fills at a
  given price with the shipped target and stop distances.
\<close>

definition open_sessions :: "(int, SessionConfig) dict" where
  "open_sessions =
     [(22, \<lparr>name = ''London'', ref_hour = 22, start_hour = 23, end_hour = 24,
            target_points = 2 / 10, stop_points = 5 / 10\<rparr>)]"

definition at_time :: "int \<Rightarrow> int \<Rightarrow> datetime" where
  "at_time h m = \<lparr>ordinal = 739924, hour = h, minute = m, second = 0, microsecond = 0\<rparr>"

definition fetch_100_90 :: "int \<Rightarrow> fetch_reply" where
  "fetch_100_90 s_id = Fetched (Some (100, 90))"

definition fill_at :: "Decimal \<Rightarrow> int \<Rightarrow> bool \<Rightarrow> broker_reply" where
  "fill_at p s_id buy =
     (if buy then Filled p (p + 2 / 10) (p - 5 / 10) else Filled p (p - 2 / 10) (p + 5 / 10))"

text \<open>The state of the end-to-end scenario: levels 100 and 90 loaded for session 22,
  entries allowed from 23:05, no trade taken yet.\<close>

definition levels_loaded_state :: BotState where
  "levels_loaded_state =
     \<lparr>last_reset_date = Some ''2026-11-04'',
      trades_taken = [(22, \<lparr>count = 0, directions = []\<rparr>)],
      active_trades = [],
      ref_levels = [(22, Some [(''high'', 100), (''low'', 90)])],
      session_trade_eligible_time = [(22, Some (at_time 23 5))],
      fetch_attempted = [(22, True)],
      scanning_started = [(22, True)],
      reconnect_count = 1\<rparr>"

text \<open>Ten monitor cycles that raise, followed by one that would return.\<close>

definition ten_failures :: "cycle_result list" where
  "ten_failures =
     [RaisedException, RaisedException, RaisedException, RaisedException, RaisedException,
      RaisedException, RaisedException, RaisedException, RaisedException, RaisedException,
      CleanReturn]"

text \<open>Saturday 2026-11-07, 10:30.\<close>

definition saturday_morning :: datetime where
  "saturday_morning = \<lparr>ordinal = 739927, hour = 10, minute = 30, second = 0, microsecond = 0\<rparr>"

section \<open>Verified properties\<close>

subsection \<open>Signal evaluator\<close>

text \<open>
  C6. For reference levels with \<open>low_level < high_level\<close>, \<open>check_entry_signal\<close>
  returns a LONG signal priced at the close exactly when the close is strictly above
  the high, a SHORT signal priced at the close exactly when it is strictly below the
  low, and nothing exactly when the close lies between the levels, both ends included;
  the two conditions exclude each other.
\<close>

theorem check_entry_signal_spec:
  assumes "low_level < high_level"
  shows "(check_entry_signal c high_level low_level
            = Some \<lparr>EntrySignal.side = ''LONG'', price = c\<rparr> \<longleftrightarrow> c > high_level)
       \<and> (check_entry_signal c high_level low_level
            = Some \<lparr>EntrySignal.side = ''SHORT'', price = c\<rparr> \<longleftrightarrow> c < low_level)
       \<and> (check_entry_signal c high_level low_level = None
            \<longleftrightarrow> low_level \<le> c \<and> c \<le> high_level)
       \<and> \<not> (c > high_level \<and> c < low_level)"
  using assms by (auto simp: check_entry_signal_def)

theorem check_entry_signal_spec_witness:
  "(90::rat) < 100
   \<and> check_entry_signal 101 100 90 = Some \<lparr>EntrySignal.side = ''LONG'', price = 101\<rparr>
   \<and> check_entry_signal 89 100 90 = Some \<lparr>EntrySignal.side = ''SHORT'', price = 89\<rparr>
   \<and> check_entry_signal 100 100 90 = None
   \<and> check_entry_signal 90 100 90 = None"
  using check_entry_signal_spec [of 90 100 101] check_entry_signal_spec [of 90 100 89]
    check_entry_signal_spec [of 90 100 100] check_entry_signal_spec [of 90 100 90]
  by simp

text \<open>
  C5. \<open>check_exit_signals\<close> returns one optional signal. At or past the trade's cutoff
  hour it is CUTOFF, whatever the price. Before the cutoff, a LONG trade gives TARGET
  when the close is at or above the target, STOP when the close is at or below the stop
  (and below the target, which is tested first), and nothing strictly between stop and
  target; a SHORT trade is the mirror image.
\<close>

theorem check_exit_signals_spec:
  "(current_hour \<ge> cutoff_h tr \<longrightarrow>
      check_exit_signals tr c current_hour
        = Some \<lparr>reason = ''CUTOFF'', trade = tr, exit_price = c\<rparr>)
   \<and> (current_hour < cutoff_h tr \<and> ActiveTrade.side tr = ''LONG'' \<and> c \<ge> tp tr \<longrightarrow>
      check_exit_signals tr c current_hour
        = Some \<lparr>reason = ''TARGET'', trade = tr, exit_price = c\<rparr>)
   \<and> (current_hour < cutoff_h tr \<and> ActiveTrade.side tr = ''LONG'' \<and> c < tp tr \<and> c \<le> sl tr \<longrightarrow>
      check_exit_signals tr c current_hour
        = Some \<lparr>reason = ''STOP'', trade = tr, exit_price = c\<rparr>)
   \<and> (current_hour < cutoff_h tr \<and> ActiveTrade.side tr = ''LONG'' \<and> sl tr < c \<and> c < tp tr \<longrightarrow>
      check_exit_signals tr c current_hour = None)
   \<and> (current_hour < cutoff_h tr \<and> ActiveTrade.side tr = ''SHORT'' \<and> c \<le> tp tr \<longrightarrow>
      check_exit_signals tr c current_hour
        = Some \<lparr>reason = ''TARGET'', trade = tr, exit_price = c\<rparr>)
   \<and> (current_hour < cutoff_h tr \<and> ActiveTrade.side tr = ''SHORT'' \<and> tp tr < c \<and> sl tr \<le> c \<longrightarrow>
      check_exit_signals tr c current_hour
        = Some \<lparr>reason = ''STOP'', trade = tr, exit_price = c\<rparr>)
   \<and> (current_hour < cutoff_h tr \<and> ActiveTrade.side tr = ''SHORT'' \<and> tp tr < c \<and> c < sl tr \<longrightarrow>
      check_exit_signals tr c current_hour = None)"
  by (simp add: check_exit_signals_def)

theorem check_exit_signals_spec_witness:
  "check_exit_signals long_trade 106 8
     = Some \<lparr>reason = ''CUTOFF'', trade = long_trade, exit_price = 106\<rparr>
   \<and> check_exit_signals long_trade 106 7
     = Some \<lparr>reason = ''TARGET'', trade = long_trade, exit_price = 106\<rparr>
   \<and> check_exit_signals long_trade 95 7
     = Some \<lparr>reason = ''STOP'', trade = long_trade, exit_price = 95\<rparr>
   \<and> check_exit_signals long_trade 100 7 = None
   \<and> check_exit_signals short_trade 95 7
     = Some \<lparr>reason = ''TARGET'', trade = short_trade, exit_price = 95\<rparr>
   \<and> check_exit_signals short_trade 105 7
     = Some \<lparr>reason = ''STOP'', trade = short_trade, exit_price = 105\<rparr>
   \<and> check_exit_signals short_trade 100 7 = None"
  using check_exit_signals_spec [of long_trade 8 106] check_exit_signals_spec [of long_trade 7 106]
    check_exit_signals_spec [of long_trade 7 95] check_exit_signals_spec [of long_trade 7 100]
    check_exit_signals_spec [of short_trade 7 95] check_exit_signals_spec [of short_trade 7 105]
    check_exit_signals_spec [of short_trade 7 100]
  by (simp add: long_trade_def short_trade_def)

subsection \<open>Risk gate\<close>

text \<open>
  C7. For a session that has a counter, \<open>can_take_direction\<close> allows every direction
  when no trade has been taken, allows exactly the directions other than the one taken
  when one trade has been taken, and allows nothing when two have been taken. The code
  counts the trades by the length of the directions list; for a counter whose \<open>count\<close>
  equals that length the same holds with \<open>count\<close>.
\<close>

theorem can_take_direction_spec:
  assumes "map_of taken session_id = Some st"
  shows "(length (directions st) = 0 \<longrightarrow> can_take_direction session_id d taken)
       \<and> (length (directions st) = 1 \<longrightarrow>
            (can_take_direction session_id d taken \<longleftrightarrow> d \<noteq> directions st ! 0))
       \<and> (length (directions st) = 2 \<longrightarrow> \<not> can_take_direction session_id d taken)
       \<and> (count st = int (length (directions st)) \<longrightarrow>
            (count st = 0 \<longrightarrow> can_take_direction session_id d taken)
          \<and> (count st = 1 \<longrightarrow>
               (can_take_direction session_id d taken \<longleftrightarrow> d \<noteq> directions st ! 0))
          \<and> (count st = 2 \<longrightarrow> \<not> can_take_direction session_id d taken))"
  using assms by (auto simp: can_take_direction_def Let_def)

theorem can_take_direction_spec_witness:
  "can_take_direction 22 ''LONG'' [(22, \<lparr>count = 0, directions = []\<rparr>)]
   \<and> can_take_direction 22 ''SHORT'' [(22, \<lparr>count = 1, directions = [''LONG'']\<rparr>)]
   \<and> \<not> can_take_direction 22 ''LONG'' [(22, \<lparr>count = 1, directions = [''LONG'']\<rparr>)]
   \<and> \<not> can_take_direction 22 ''SHORT''
         [(22, \<lparr>count = 2, directions = [''LONG'', ''SHORT'']\<rparr>)]"
  using
    can_take_direction_spec [of "[(22, \<lparr>count = 0, directions = []\<rparr>)]" 22 _ "''LONG''"]
    can_take_direction_spec [of "[(22, \<lparr>count = 1, directions = [''LONG'']\<rparr>)]" 22 _ "''SHORT''"]
    can_take_direction_spec [of "[(22, \<lparr>count = 1, directions = [''LONG'']\<rparr>)]" 22 _ "''LONG''"]
    can_take_direction_spec
      [of "[(22, \<lparr>count = 2, directions = [''LONG'', ''SHORT'']\<rparr>)]" 22 _ "''SHORT''"]
  by simp

subsection \<open>State store\<close>

lemma init_session_maps_frame:
  "last_reset_date (init_session_maps s ids) = last_reset_date s"
  "active_trades (init_session_maps s ids) = active_trades s"
  "reconnect_count (init_session_maps s ids) = reconnect_count s"
  by (induction ids arbitrary: s) simp_all

lemma map_of_setdefault:
  "map_of (setdefault d k v) k' =
     (if k' = k then (case map_of d k of None \<Rightarrow> Some v | Some w \<Rightarrow> Some w) else map_of d k')"
  by (simp add: setdefault_def update_conv' split: option.splits)

lemma init_session_maps_trades_taken:
  "map_of (trades_taken (init_session_maps s ids)) sid =
     (case map_of (trades_taken s) sid of
        Some v \<Rightarrow> Some v
      | None \<Rightarrow> if sid \<in> set ids then Some \<lparr>count = 0, directions = []\<rparr> else None)"
  by (induction ids arbitrary: s) (auto simp: map_of_setdefault split: option.splits)

lemma init_session_maps_ref_levels:
  "map_of (ref_levels (init_session_maps s ids)) sid =
     (case map_of (ref_levels s) sid of
        Some v \<Rightarrow> Some v
      | None \<Rightarrow> if sid \<in> set ids then Some None else None)"
  by (induction ids arbitrary: s) (auto simp: map_of_setdefault split: option.splits)

lemma init_session_maps_eligible:
  "map_of (session_trade_eligible_time (init_session_maps s ids)) sid =
     (case map_of (session_trade_eligible_time s) sid of
        Some v \<Rightarrow> Some v
      | None \<Rightarrow> if sid \<in> set ids then Some None else None)"
  by (induction ids arbitrary: s) (auto simp: map_of_setdefault split: option.splits)

lemma init_session_maps_fetch_attempted:
  "map_of (fetch_attempted (init_session_maps s ids)) sid =
     (case map_of (fetch_attempted s) sid of
        Some v \<Rightarrow> Some v
      | None \<Rightarrow> if sid \<in> set ids then Some False else None)"
  by (induction ids arbitrary: s) (auto simp: map_of_setdefault split: option.splits)

text \<open>
  C2, as the claim states it, fails: a file dated yesterday is discarded, but the state
  \<open>load\<close> returns carries no date at all, not today's date.
\<close>

theorem load_stale_file_counterexample:
  "last_reset_date
     (load decimal_int_of_str no_decimal_of_str no_fromisoformat [22] ''2026-11-04''
        (Parsed stale_file))
   \<noteq> Some ''2026-11-04''"
  by (simp add: load_def stale_file_def BotState_default_def setdefault_def)

text \<open>
  C2, amended. For every state file whose \<open>last_reset_date\<close> is not today's date,
  \<open>load\<close> returns the freshly initialised state, whatever else the file holds: no date
  (\<open>last_reset_date\<close> is \<open>None\<close>), no active trade, and for every configured session a
  zero counter, no reference levels, no eligibility time and no fetch attempt.
\<close>

theorem load_stale_file:
  assumes "file_last_reset_date data \<noteq> Some today_str"
  shows "load int_of_str decimal_of_str fromisoformat session_ids today_str (Parsed data)
           = init_session_maps BotState_default session_ids
       \<and> last_reset_date (init_session_maps BotState_default session_ids) = None
       \<and> active_trades (init_session_maps BotState_default session_ids) = []
       \<and> (\<forall>sid \<in> set session_ids.
            map_of (trades_taken (init_session_maps BotState_default session_ids)) sid
              = Some \<lparr>count = 0, directions = []\<rparr>
          \<and> get_optional (ref_levels (init_session_maps BotState_default session_ids)) sid = None
          \<and> get_optional
              (session_trade_eligible_time (init_session_maps BotState_default session_ids)) sid
              = None
          \<and> map_of (fetch_attempted (init_session_maps BotState_default session_ids)) sid
              = Some False)"
proof -
  have "load int_of_str decimal_of_str fromisoformat session_ids today_str (Parsed data)
          = init_session_maps BotState_default session_ids"
    using assms by (simp add: load_def)
  then show ?thesis
    by (simp add: init_session_maps_frame init_session_maps_trades_taken
        init_session_maps_ref_levels init_session_maps_eligible
        init_session_maps_fetch_attempted get_optional_def BotState_default_def)
qed

theorem load_stale_file_witness:
  "file_last_reset_date stale_file \<noteq> Some ''2026-11-04''
   \<and> load decimal_int_of_str no_decimal_of_str no_fromisoformat [22] ''2026-11-04''
         (Parsed stale_file)
       = \<lparr>last_reset_date = None,
          trades_taken = [(22, \<lparr>count = 0, directions = []\<rparr>)],
          active_trades = [], ref_levels = [(22, None)],
          session_trade_eligible_time = [(22, None)], fetch_attempted = [(22, False)],
          scanning_started = [(22, False)], reconnect_count = 0\<rparr>"
  using load_stale_file [of stale_file "''2026-11-04''" decimal_int_of_str no_decimal_of_str
      no_fromisoformat "[22]"]
  by (simp add: stale_file_def BotState_default_def setdefault_def)

text \<open>
  C10. \<open>load\<close> copies a counter from the file as it stands. Take any counter \<open>v\<close> whose
  \<open>count\<close> differs from the length of its directions list, and a key that reads as the
  id of a configured session: there is a state file of today that holds \<open>v\<close> under that
  key, and the state \<open>load\<close> returns for it holds exactly \<open>v\<close> for that session.
\<close>

theorem load_keeps_inconsistent_counter:
  assumes "int_of_str k = Some sid" and "sid \<in> set session_ids"
    and "count v \<noteq> int (length (directions v))"
  shows "\<exists>data.
           file_last_reset_date data = Some today_str
         \<and> (k, v) \<in> set (file_trades_taken data)
         \<and> count v \<noteq> int (length (directions v))
         \<and> map_of (trades_taken
              (load int_of_str decimal_of_str fromisoformat session_ids today_str (Parsed data)))
              sid
             = Some v"
proof -
  let ?data = "counter_file today_str k v"
  have known: "map_of (trades_taken (init_session_maps BotState_default session_ids)) sid \<noteq> None"
    using assms(2) by (simp add: init_session_maps_trades_taken BotState_default_def)
  have same: "\<lparr>count = count v, directions = directions v\<rparr> = v"
    by simp
  have "map_of (trades_taken
          (load int_of_str decimal_of_str fromisoformat session_ids today_str (Parsed ?data))) sid
        = Some \<lparr>count = count v, directions = directions v\<rparr>"
    using assms(1) known
    by (auto simp add: load_def Let_def counter_file_def and_then_def outcome_def
        update_conv' simp del: SessionTradeState.surjective)
  then have "map_of (trades_taken
          (load int_of_str decimal_of_str fromisoformat session_ids today_str (Parsed ?data))) sid
        = Some v"
    using same by simp
  moreover have "file_last_reset_date ?data = Some today_str"
    by (simp add: counter_file_def)
  moreover have "(k, v) \<in> set (file_trades_taken ?data)"
    by (simp add: counter_file_def)
  ultimately show ?thesis using assms(3) by blast
qed

theorem load_keeps_inconsistent_counter_witness:
  "decimal_int_of_str ''22'' = Some 22 \<and> (22::int) \<in> set [22]
   \<and> count \<lparr>count = 5, directions = [''LONG'']\<rparr>
       \<noteq> int (length (directions \<lparr>count = 5, directions = [''LONG'']\<rparr>))
   \<and> (\<exists>data.
           file_last_reset_date data = Some ''2026-11-04''
         \<and> (''22'', \<lparr>count = 5, directions = [''LONG'']\<rparr>) \<in> set (file_trades_taken data)
         \<and> map_of (trades_taken
              (load decimal_int_of_str no_decimal_of_str no_fromisoformat [22] ''2026-11-04''
                 (Parsed data))) 22
             = Some \<lparr>count = 5, directions = [''LONG'']\<rparr>)"
proof -
  have h1: "decimal_int_of_str ''22'' = Some 22" by (simp add: decimal_int_of_str_def)
  have h2: "(22::int) \<in> set [22]" by simp
  have h3: "count \<lparr>count = 5, directions = [''LONG'']\<rparr>
              \<noteq> int (length (directions \<lparr>count = 5, directions = [''LONG'']\<rparr>))"
    by simp
  have "\<exists>data.
           file_last_reset_date data = Some ''2026-11-04''
         \<and> (''22'', \<lparr>count = 5, directions = [''LONG'']\<rparr>) \<in> set (file_trades_taken data)
         \<and> count \<lparr>count = 5, directions = [''LONG'']\<rparr>
             \<noteq> int (length (directions \<lparr>count = 5, directions = [''LONG'']\<rparr>))
         \<and> map_of (trades_taken
              (load decimal_int_of_str no_decimal_of_str no_fromisoformat [22] ''2026-11-04''
                 (Parsed data))) 22
             = Some \<lparr>count = 5, directions = [''LONG'']\<rparr>"
    using load_keeps_inconsistent_counter
      [where int_of_str = decimal_int_of_str and k = "''22''" and sid = 22
         and session_ids = "[22]" and v = "\<lparr>count = 5, directions = [''LONG'']\<rparr>"
         and today_str = "''2026-11-04''" and decimal_of_str = no_decimal_of_str
         and fromisoformat = no_fromisoformat, OF h1 h2 h3] .
  then show ?thesis using h1 h2 h3 by blast
qed

lemma load_trades_taken_reconnect:
  "reconnect_count (outcome (load_trades_taken i items s)) = reconnect_count s"
  by (induction i items s rule: load_trades_taken.induct)
     (auto simp: outcome_def split: option.splits)

lemma load_active_trades_reconnect:
  "reconnect_count (outcome (load_active_trades d ts s)) = reconnect_count s"
  by (induction d ts s rule: load_active_trades.induct)
     (auto simp: outcome_def split: option.splits)

lemma load_ref_levels_reconnect:
  "reconnect_count (outcome (load_ref_levels i d items s)) = reconnect_count s"
  by (induction i d items s rule: load_ref_levels.induct)
     (auto simp: outcome_def split: option.splits)

lemma load_eligible_times_reconnect:
  "reconnect_count (outcome (load_eligible_times i f items s)) = reconnect_count s"
  by (induction i f items s rule: load_eligible_times.induct)
     (auto simp: outcome_def split: option.splits)

lemma load_fetch_attempted_reconnect:
  "reconnect_count (outcome (load_fetch_attempted i items s)) = reconnect_count s"
  by (induction i items s rule: load_fetch_attempted.induct)
     (auto simp: outcome_def split: option.splits)

lemma and_then_reconnect:
  assumes "\<And>x. reconnect_count (outcome (f x)) = reconnect_count x"
  shows "reconnect_count (outcome (and_then a f)) = reconnect_count (outcome a)"
  using assms by (cases a) (simp_all add: and_then_def outcome_def)

lemma load_reconnect_count:
  "reconnect_count (load i d f session_ids today_str found) = 0"
proof (cases found)
  case (Parsed data)
  have z: "reconnect_count (init_session_maps BotState_default session_ids) = 0"
    by (simp add: init_session_maps_frame BotState_default_def)
  show ?thesis
    unfolding load_def Let_def using z
    by (simp add: Parsed and_then_reconnect load_trades_taken_reconnect
        load_active_trades_reconnect load_ref_levels_reconnect
        load_eligible_times_reconnect load_fetch_attempted_reconnect)
qed (simp_all add: load_def init_session_maps_frame BotState_default_def)

text \<open>
  C4, as the claim states it, fails: the daily reset does not keep the reconnect counter.
  A state that has counted three connections counts none after the reset.
\<close>

theorem reset_keeps_reconnect_count_counterexample:
  "reconnect_count
     (reset_daily_state [22] ''2026-11-04'' (BotState_default\<lparr>reconnect_count := 3\<rparr>))
   \<noteq> reconnect_count (BotState_default\<lparr>reconnect_count := 3\<rparr>)"
  by (simp add: reset_daily_state_def BotState_default_def setdefault_def)

text \<open>
  C4, amended. The reconnect counter is not written to the state file (the saved
  document does not depend on it) and is zero in every state \<open>load\<close> returns; the daily
  reset replaces the whole state by a freshly initialised one dated today, in which the
  reconnect counter is zero again; each connection adds one to it.
\<close>

theorem reconnect_count_lifetime:
  "save str_decimal isoformat (state\<lparr>reconnect_count := n\<rparr>) = save str_decimal isoformat state
   \<and> reconnect_count
       (load int_of_str decimal_of_str fromisoformat session_ids today_str found) = 0
   \<and> reset_daily_state session_ids today_str state
       = init_session_maps (BotState_default\<lparr>last_reset_date := Some today_str\<rparr>) session_ids
   \<and> reconnect_count (reset_daily_state session_ids today_str state) = 0
   \<and> reconnect_count (count_reconnect state) = reconnect_count state + 1"
  by (simp add: save_def load_reconnect_count reset_daily_state_def init_session_maps_frame
      BotState_default_def count_reconnect_def)

subsection \<open>Entry pipeline\<close>

lemma counters_ok_frame:
  "trades_taken s' = trades_taken s \<Longrightarrow> counters_ok s' = counters_ok s"
  by (simp add: counters_ok_def)

lemma counters_ok_enter:
  assumes "counters_ok s" and "map_of (trades_taken s) sid = Some c" and "count c < 2"
  shows "counters_ok (s\<lparr>active_trades := a,
           trades_taken :=
             AList.update sid \<lparr>count = count c + 1, directions = directions c @ [d]\<rparr>
               (trades_taken s)\<rparr>)"
  unfolding counters_ok_def
proof (intro allI impI)
  fix k counter
  assume look: "map_of (trades_taken (s\<lparr>active_trades := a,
           trades_taken :=
             AList.update sid \<lparr>count = count c + 1, directions = directions c @ [d]\<rparr>
               (trades_taken s)\<rparr>)) k = Some counter"
  have old: "count c = int (length (directions c)) \<and> count c \<le> 2"
    using assms(1,2) unfolding counters_ok_def by blast
  show "count counter = int (length (directions counter)) \<and> count counter \<le> 2"
  proof (cases "k = sid")
    case True
    then have "counter = \<lparr>count = count c + 1, directions = directions c @ [d]\<rparr>"
      using look by (simp add: update_conv')
    then show ?thesis using old assms(3) by simp
  next
    case False
    then have "map_of (trades_taken s) k = Some counter"
      using look by (simp add: update_conv')
    then show ?thesis using assms(1) unfolding counters_ok_def by blast
  qed
qed

lemma eligible_count:
  "is_trade_eligible sid taken now e \<Longrightarrow> \<exists>c. map_of taken sid = Some c \<and> count c < 2"
  by (auto simp: is_trade_eligible_def split: option.splits if_splits)

lemma process_entries_loop_counters_ok:
  "counters_ok state \<Longrightarrow>
   counters_ok (fst (process_entries_loop broker c_close now_la curr_h sessions flag state))"
proof (induction sessions arbitrary: flag state)
  case Nil
  then show ?case by simp
next
  case (Cons p sessions)
  obtain s_id cfg where p: "p = (s_id, cfg)" by (cases p)
  show ?case
  proof (cases "is_in_session_window cfg curr_h \<and>
      is_trade_eligible s_id (trades_taken state) now_la
        (get_optional (session_trade_eligible_time state) s_id)")
    case False
    then show ?thesis using Cons by (auto simp: p)
  next
    case True
    then obtain c where c: "map_of (trades_taken state) s_id = Some c" "count c < 2"
      using eligible_count by blast
    have step: "\<And>a d. counters_ok (state\<lparr>active_trades := a,
           trades_taken :=
             AList.update s_id \<lparr>count = count c + 1, directions = directions c @ [d]\<rparr>
               (trades_taken state)\<rparr>)"
      using counters_ok_enter [OF Cons.prems c] by simp
    show ?thesis
      using True Cons c step
      by (auto simp: p Let_def split: option.splits broker_reply.splits)
  qed
qed

lemma check_levels_trades_taken:
  "trades_taken (fst (check_levels fetch delay now_la sessions state)) = trades_taken state"
  by (induction fetch delay now_la sessions state rule: check_levels.induct)
     (auto simp: Let_def split: option.splits fetch_reply.splits sum.splits prod.splits)

lemma counters_ok_zeroed:
  assumes "\<forall>sid counter. map_of (trades_taken s) sid = Some counter \<longrightarrow>
             counter = \<lparr>count = 0, directions = []\<rparr>"
  shows "counters_ok s"
  using assms unfolding counters_ok_def by fastforce

lemma counters_ok_reset: "counters_ok (reset_daily_state ids today_str s)"
  by (rule counters_ok_zeroed)
     (auto simp: reset_daily_state_def init_session_maps_trades_taken BotState_default_def
        split: if_splits)

lemma apply_event_counters_ok:
  "counters_ok s \<Longrightarrow> counters_ok (apply_event sessions delay s e)"
  by (cases e)
     (simp_all add: process_entries_def process_entries_loop_counters_ok counters_ok_reset
        counters_ok_frame [OF check_levels_trades_taken])

lemma run_events_counters_ok:
  "counters_ok s \<Longrightarrow> counters_ok (run_events sessions delay s events)"
  unfolding run_events_def
  by (induction events arbitrary: s) (simp_all add: apply_event_counters_ok)

text \<open>
  C1. Start from any state whose session counters are all zeroed (\<open>count\<close> 0, no
  direction). After any sequence of candles routed through entry processing, with any
  answers of the broker, interleaved with any passes of the level loader and any daily
  resets, every session counter has \<open>count\<close> equal to the length of its directions list
  and \<open>count\<close> at most 2.
\<close>

theorem trade_counter_invariant:
  assumes "\<forall>sid counter. map_of (trades_taken s0) sid = Some counter \<longrightarrow>
             counter = \<lparr>count = 0, directions = []\<rparr>"
  shows "\<forall>sid counter.
           map_of (trades_taken (run_events sessions delay s0 events)) sid = Some counter \<longrightarrow>
             count counter = int (length (directions counter)) \<and> count counter \<le> 2"
  using run_events_counters_ok [OF counters_ok_zeroed [OF assms]]
  unfolding counters_ok_def by blast

text \<open>
  The witness runs a session whose window is open: the levels load at 23:00, a close of
  101 opens a LONG trade, a second breakout upwards is refused, a close of 89 opens the
  SHORT trade, and a further close below the low is refused.
\<close>

theorem trade_counter_invariant_witness:
  "trades_taken (init_session_maps BotState_default [22])
     = [(22, \<lparr>count = 0, directions = []\<rparr>)]
   \<and> map_of (trades_taken
       (run_events open_sessions entry_delay_minutes (init_session_maps BotState_default [22])
       [LevelCheck fetch_100_90 (at_time 23 0),
        Candle (fill_at 101) 101 (at_time 23 6),
        Candle (fill_at 102) 102 (at_time 23 7),
        Candle (fill_at 89) 89 (at_time 23 8),
        Candle (fill_at 88) 88 (at_time 23 9)])) 22
     = Some \<lparr>count = 2, directions = [''LONG'', ''SHORT'']\<rparr>"
proof -
  have h: "\<forall>sid counter.
      map_of (trades_taken (init_session_maps BotState_default [22])) sid = Some counter \<longrightarrow>
        counter = \<lparr>count = 0, directions = []\<rparr>"
    by (simp add: BotState_default_def setdefault_def)
  have run: "map_of (trades_taken
       (run_events open_sessions entry_delay_minutes (init_session_maps BotState_default [22])
       [LevelCheck fetch_100_90 (at_time 23 0),
        Candle (fill_at 101) 101 (at_time 23 6),
        Candle (fill_at 102) 102 (at_time 23 7),
        Candle (fill_at 89) 89 (at_time 23 8),
        Candle (fill_at 88) 88 (at_time 23 9)])) 22
     = Some \<lparr>count = 2, directions = [''LONG'', ''SHORT'']\<rparr>"
    by (simp add: run_events_def open_sessions_def entry_delay_minutes_def
        BotState_default_def setdefault_def at_time_def fetch_100_90_def fill_at_def
        get_optional_def process_entries_def replace_hm_def is_in_session_window_def is_trade_eligible_def dt_less_def
        to_microseconds_def check_entry_signal_def can_take_direction_def Let_def)
  show ?thesis
    using run trade_counter_invariant [OF h, of open_sessions entry_delay_minutes
       "[LevelCheck fetch_100_90 (at_time 23 0),
        Candle (fill_at 101) 101 (at_time 23 6),
        Candle (fill_at 102) 102 (at_time 23 7),
        Candle (fill_at 89) 89 (at_time 23 8),
        Candle (fill_at 88) 88 (at_time 23 9)]"]
    by (simp add: BotState_default_def setdefault_def)
qed

text \<open>
  With the shipped table the window test \<open>23 \<le> hour < 23\<close> holds at no hour: entry
  processing leaves every state as it is and reports no active window, whatever the
  tick.
\<close>

lemma shipped_sessions_never_enter:
  "process_entries SESSIONS broker c_close now_la curr_h state = (state, Inr False)"
  by (simp add: process_entries_def SESSIONS_def is_in_session_window_def)

text \<open>
  With the window ending at 24 the scenario of the specification runs as described: the
  tick at 23:00 with a close of 95 opens nothing, the tick at 23:06 with a close of 101
  opens a LONG trade and the counter becomes \<open>{count: 1, directions: ["LONG"]}\<close>.
\<close>

lemma open_window_scenario:
  "process_entries open_sessions (fill_at 95) 95 (at_time 23 0) 23 levels_loaded_state
     = (levels_loaded_state, Inr True)
   \<and> process_entries open_sessions (fill_at 101) 101 (at_time 23 6) 23 levels_loaded_state
     = (levels_loaded_state
          \<lparr>active_trades :=
             [\<lparr>ActiveTrade.side = ''LONG'', tp = 101 + 2 / 10, sl = 101 - 5 / 10,
               sess_name = ''London'', cutoff_h = 24, sess_id = 22, entry_price = 101\<rparr>],
           trades_taken := [(22, \<lparr>count = 1, directions = [''LONG'']\<rparr>)]\<rparr>,
        Inr True)"
  by (simp add: process_entries_def open_sessions_def levels_loaded_state_def at_time_def
      fill_at_def get_optional_def is_in_session_window_def is_trade_eligible_def dt_less_def
      to_microseconds_def check_entry_signal_def can_take_direction_def Let_def)

text \<open>
  C3 at the claim's own input, on the code as shipped: the tick at 23:06 with a close of
  101 opens no trade and leaves the counter of session 22 at zero (the claim expects a
  LONG trade and a count of 1); the tick at 23:00 with a close of 95 opens no trade
  either.
\<close>

theorem shipped_scenario_opens_no_trade:
  "process_entries SESSIONS (fill_at 101) 101 (at_time 23 6) 23 levels_loaded_state
     = (levels_loaded_state, Inr False)
   \<and> active_trades
       (fst (process_entries SESSIONS (fill_at 101) 101 (at_time 23 6) 23 levels_loaded_state))
     = []
   \<and> map_of (trades_taken
       (fst (process_entries SESSIONS (fill_at 101) 101 (at_time 23 6) 23 levels_loaded_state)))
       22
     = Some \<lparr>count = 0, directions = []\<rparr>
   \<and> process_entries SESSIONS (fill_at 95) 95 (at_time 23 0) 23 levels_loaded_state
     = (levels_loaded_state, Inr False)"
  by (simp add: shipped_sessions_never_enter) (simp add: levels_loaded_state_def)

subsection \<open>Supervisor\<close>

lemma start_iteration_bound:
  assumes "0 \<le> e" and "e \<le> 9" and "start_iteration e r = (e', effs, go)"
  shows "(go \<longrightarrow> 0 \<le> e' \<and> e' \<le> 9) \<and> (\<not> go \<longrightarrow> e' = 10)"
proof (cases r)
  case CleanReturn
  then show ?thesis using assms(3) by (simp add: start_iteration_def)
next
  case RaisedException
  show ?thesis
  proof (cases "e + 1 \<ge> 10")
    case True
    then have "e' = e + 1 \<and> \<not> go"
      using assms(3) RaisedException
      by (simp add: start_iteration_def Let_def max_consecutive_errors_def)
    then show ?thesis using True assms(2) by simp
  next
    case False
    then have "e' = e + 1 \<and> go"
      using assms(3) RaisedException
      by (simp add: start_iteration_def Let_def max_consecutive_errors_def)
    then show ?thesis using False assms(1) by simp
  qed
qed

lemma start_running_bound:
  "0 \<le> e \<Longrightarrow> e \<le> 9 \<Longrightarrow> start e rs = (effs, final, running) \<Longrightarrow>
     (running \<longrightarrow> 0 \<le> final \<and> final \<le> 9) \<and> (\<not> running \<longrightarrow> final = 10)"
proof (induction rs arbitrary: e effs final running)
  case Nil
  then show ?case by simp
next
  case (Cons r rs)
  obtain e' effs1 go where it: "start_iteration e r = (e', effs1, go)"
    by (cases "start_iteration e r") blast
  have b: "(go \<longrightarrow> 0 \<le> e' \<and> e' \<le> 9) \<and> (\<not> go \<longrightarrow> e' = 10)"
    using start_iteration_bound [OF Cons.prems(1,2) it] .
  show ?case
  proof (cases go)
    case True
    obtain later final' still where rec: "start e' rs = (later, final', still)"
      by (cases "start e' rs") blast
    have "final = final'" and "running = still"
      using Cons.prems(3) it True rec by simp_all
    then show ?thesis
      using Cons.IH [of e' later final' still] b True rec by simp
  next
    case False
    have "final = e'" and "\<not> running"
      using Cons.prems(3) it False by simp_all
    then show ?thesis using b False by simp
  qed
qed

text \<open>
  C8. In the supervisor loop, with \<open>e\<close> the number of consecutive errors so far:
  a clean return of the monitor cycle sets the counter to zero (and the loop goes on
  after the two-second pause); an exception with fewer than ten errors reached makes the
  counter \<open>e + 1\<close>, sends \<open>Bot Error #(e + 1)\<close> exactly when \<open>e + 1\<close> is 1 or a multiple
  of 3, sleeps \<open>min(30 * 2^(e + 1 - 1), 300)\<close> seconds (followed by the two-second pause
  every pass ends with) and goes on; the tenth consecutive exception sends the final
  notification and ends the loop, which looks at no later cycle. Run from zero, the
  counter stays between 0 and 9 while the loop runs and is 10 once it has stopped.
\<close>

theorem supervisor_spec:
  "start_iteration e CleanReturn = (0, [Sleep 2], True)
   \<and> (0 \<le> e \<and> e < 9 \<longrightarrow>
        start_iteration e RaisedException
          = (e + 1,
             (if e + 1 = 1 \<or> (e + 1) mod 3 = 0
              then [Send (''Bot Error #'' @ str_int (e + 1))] else [])
               @ [Sleep (min (30 * 2 ^ nat (e + 1 - 1)) 300), Sleep 2],
             True))
   \<and> (e = 9 \<longrightarrow>
        start_iteration e RaisedException = (10, [Send ''STOPPED after 10 errors''], False)
        \<and> start e (RaisedException # rest) = ([Send ''STOPPED after 10 errors''], 10, False))
   \<and> (\<forall>effs final running.
        start 0 rs = (effs, final, running) \<longrightarrow>
          (running \<longrightarrow> 0 \<le> final \<and> final \<le> 9) \<and> (\<not> running \<longrightarrow> final = 10))"
proof (intro conjI)
  show "start_iteration e CleanReturn = (0, [Sleep 2], True)"
    by (simp add: start_iteration_def)
  show "0 \<le> e \<and> e < 9 \<longrightarrow>
        start_iteration e RaisedException
          = (e + 1,
             (if e + 1 = 1 \<or> (e + 1) mod 3 = 0
              then [Send (''Bot Error #'' @ str_int (e + 1))] else [])
               @ [Sleep (min (30 * 2 ^ nat (e + 1 - 1)) 300), Sleep 2],
             True)"
    by (simp add: start_iteration_def Let_def max_consecutive_errors_def)
  have stop: "start_iteration 9 RaisedException
                = (10, [Send ''STOPPED after 10 errors''], False)"
    by (simp add: start_iteration_def Let_def max_consecutive_errors_def str_int_def
        digits.simps)
  show "e = 9 \<longrightarrow>
        start_iteration e RaisedException = (10, [Send ''STOPPED after 10 errors''], False)
        \<and> start e (RaisedException # rest) = ([Send ''STOPPED after 10 errors''], 10, False)"
    using stop by simp
  show "\<forall>effs final running.
        start 0 rs = (effs, final, running) \<longrightarrow>
          (running \<longrightarrow> 0 \<le> final \<and> final \<le> 9) \<and> (\<not> running \<longrightarrow> final = 10)"
    using start_running_bound [of 0 rs] by auto
qed

theorem supervisor_spec_witness:
  "start_iteration 0 RaisedException = (1, [Send ''Bot Error #1'', Sleep 30, Sleep 2], True)
   \<and> start_iteration 1 RaisedException = (2, [Sleep 60, Sleep 2], True)
   \<and> start_iteration 5 RaisedException = (6, [Send ''Bot Error #6'', Sleep 300, Sleep 2], True)
   \<and> start_iteration 9 RaisedException = (10, [Send ''STOPPED after 10 errors''], False)
   \<and> start 0 ten_failures
       = ([Send ''Bot Error #1'', Sleep 30, Sleep 2, Sleep 60, Sleep 2,
           Send ''Bot Error #3'', Sleep 120, Sleep 2, Sleep 240, Sleep 2, Sleep 300, Sleep 2,
           Send ''Bot Error #6'', Sleep 300, Sleep 2, Sleep 300, Sleep 2, Sleep 300, Sleep 2,
           Send ''Bot Error #9'', Sleep 300, Sleep 2,
           Send ''STOPPED after 10 errors''], 10, False)"
proof -
  have run: "start 0 ten_failures
       = ([Send ''Bot Error #1'', Sleep 30, Sleep 2, Sleep 60, Sleep 2,
           Send ''Bot Error #3'', Sleep 120, Sleep 2, Sleep 240, Sleep 2, Sleep 300, Sleep 2,
           Send ''Bot Error #6'', Sleep 300, Sleep 2, Sleep 300, Sleep 2, Sleep 300, Sleep 2,
           Send ''Bot Error #9'', Sleep 300, Sleep 2,
           Send ''STOPPED after 10 errors''], 10, False)"
    by (simp add: ten_failures_def start_iteration_def Let_def max_consecutive_errors_def
        str_int_def digits.simps)
  have one: "start_iteration 0 RaisedException
               = (1, [Send ''Bot Error #1'', Sleep 30, Sleep 2], True)"
    using supervisor_spec [of 0 "[]" "[]"] by (simp add: str_int_def digits.simps)
  have two: "start_iteration 1 RaisedException = (2, [Sleep 60, Sleep 2], True)"
    using supervisor_spec [of 1 "[]" "[]"] by simp
  have six: "start_iteration 5 RaisedException
               = (6, [Send ''Bot Error #6'', Sleep 300, Sleep 2], True)"
    using supervisor_spec [of 5 "[]" "[]"] by (simp add: str_int_def digits.simps)
  have ten: "start_iteration 9 RaisedException
               = (10, [Send ''STOPPED after 10 errors''], False)"
    using supervisor_spec [of 9 "[]" "[]"] by simp
  show ?thesis
    using one two six ten run by (intro conjI)
qed

subsection \<open>Scheduling\<close>

lemma to_microseconds_split:
  "to_microseconds t =
     ordinal t * 86400000000
       + (hour t * 3600000000 + minute t * 60000000 + second t * 1000000 + microsecond t)"
  by (simp add: to_microseconds_def algebra_simps)

lemma time_of_day_range:
  assumes "valid_datetime t"
  shows "0 \<le> hour t * 3600000000 + minute t * 60000000 + second t * 1000000 + microsecond t"
    and "hour t * 3600000000 + minute t * 60000000 + second t * 1000000 + microsecond t
           < 86400000000"
  using assms unfolding valid_datetime_def by auto

lemma later_means_not_earlier_day:
  assumes "valid_datetime a" and "valid_datetime b" and "dt_less a b"
  shows "ordinal a \<le> ordinal b"
proof (rule ccontr)
  assume "\<not> ordinal a \<le> ordinal b"
  then have "ordinal b + 1 \<le> ordinal a" by simp
  then have "(ordinal b + 1) * 86400000000 \<le> ordinal a * 86400000000" by simp
  then show False
    using assms(3) time_of_day_range [OF assms(1)] time_of_day_range [OF assms(2)]
    unfolding dt_less_def to_microseconds_split by (simp add: algebra_simps)
qed

lemma next_occurrence_replace:
  assumes now: "valid_datetime now" and h: "0 \<le> h" "h < 24" and m: "0 \<le> m" "m < 60"
    and r: "replace_hm now h m = Inr t"
  shows "next_occurrence now h m (if dt_le t now then add_days t 1 else t)"
proof -
  have t: "t = now\<lparr>hour := h, minute := m, second := 0, microsecond := 0\<rparr>"
    using r h m by (simp add: replace_hm_def)
  let ?t' = "if dt_le t now then add_days t 1 else t"
  have clock: "on_the_clock ?t' h m"
    using now h m by (simp add: t on_the_clock_def valid_datetime_def add_days_def)
  have later: "dt_less now ?t'"
    using time_of_day_range [OF now] h m
    by (auto simp: t dt_less_def dt_le_def add_days_def to_microseconds_split)
  have least: "dt_le ?t' u" if u: "on_the_clock u h m" "dt_less now u" for u
  proof -
    have uv: "valid_datetime u" using u(1) by (simp add: on_the_clock_def)
    have day: "ordinal now \<le> ordinal u"
      using later_means_not_earlier_day [OF now uv u(2)] .
    have ufields: "hour u = h" "minute u = m" "second u = 0" "microsecond u = 0"
      using u(1) by (simp_all add: on_the_clock_def)
    show ?thesis
    proof (cases "dt_le t now")
      case True
      have "ordinal now \<noteq> ordinal u"
      proof
        assume "ordinal now = ordinal u"
        then have "to_microseconds u = to_microseconds t"
          by (simp add: t to_microseconds_split ufields)
        then show False using True u(2) by (simp add: dt_le_def dt_less_def)
      qed
      then have "ordinal now + 1 \<le> ordinal u" using day by simp
      then show ?thesis
        using True by (simp add: t dt_le_def add_days_def to_microseconds_split ufields)
    next
      case False
      then show ?thesis
        using day by (simp add: t dt_le_def to_microseconds_split ufields)
    qed
  qed
  show ?thesis
    unfolding next_occurrence_def using clock later least by blast
qed

lemma next_sunday_open_replace:
  assumes now: "valid_datetime now"
    and wk: "(weekday now = 4 \<and> hour now \<ge> 14) \<or> weekday now = 5"
    and r: "replace_hm (add_days now (6 - weekday now)) 15 0 = Inr t"
  shows "next_sunday_open now t"
proof -
  have t: "t = now\<lparr>ordinal := ordinal now + (6 - weekday now),
                   hour := 15, minute := 0, second := 0, microsecond := 0\<rparr>"
    using r by (simp add: replace_hm_def add_days_def)
  have wd: "weekday now = 4 \<or> weekday now = 5" using wk by blast
  have clock: "on_the_clock t 15 0"
    using now wd by (auto simp: t on_the_clock_def valid_datetime_def)
  have sunday: "weekday t = 6"
    using wd unfolding t weekday_def by auto presburger+
  have later: "dt_less now t"
    using time_of_day_range [OF now] wd
    by (auto simp: t dt_less_def to_microseconds_split algebra_simps)
  have least: "dt_le t u"
    if u: "on_the_clock u 15 0" "weekday u = 6" "dt_less now u" for u
  proof -
    have uv: "valid_datetime u" using u(1) by (simp add: on_the_clock_def)
    have day: "ordinal now \<le> ordinal u"
      using later_means_not_earlier_day [OF now uv u(3)] .
    have ufields: "hour u = 15" "minute u = 0" "second u = 0" "microsecond u = 0"
      using u(1) by (simp_all add: on_the_clock_def)
    have "ordinal now + (6 - weekday now) \<le> ordinal u"
      using day u(2) wd unfolding weekday_def by presburger
    then show ?thesis
      by (simp add: t dt_le_def to_microseconds_split ufields)
  qed
  show ?thesis
    unfolding next_sunday_open_def using clock sunday later least by blast
qed

lemma session_events_next:
  assumes "valid_datetime now"
    and "\<forall>cfg \<in> set cfgs. 0 \<le> start_hour cfg \<and> start_hour cfg < 24"
  shows "\<exists>events. session_events now cfgs = Inr events
           \<and> list_all2 (\<lambda>cfg t. next_occurrence now (start_hour cfg) 0 t) cfgs events"
  using assms(2)
proof (induction cfgs)
  case Nil
  then show ?case by simp
next
  case (Cons cfg cfgs)
  then obtain events where ev: "session_events now cfgs = Inr events"
      "list_all2 (\<lambda>cfg t. next_occurrence now (start_hour cfg) 0 t) cfgs events"
    by auto
  have hr: "0 \<le> start_hour cfg" "start_hour cfg < 24" using Cons.prems by auto
  obtain t where t: "replace_hm now (start_hour cfg) 0 = Inr t"
    using hr by (simp add: replace_hm_def)
  have "next_occurrence now (start_hour cfg) 0 (if dt_le t now then add_days t 1 else t)"
    using next_occurrence_replace [OF assms(1) hr _ _ t] by simp
  then show ?case using ev t by simp
qed

lemma min_datetime_least:
  "min_datetime best ts \<in> set (best # ts)
   \<and> (\<forall>u \<in> set (best # ts). dt_le (min_datetime best ts) u)"
proof (induction ts arbitrary: best)
  case Nil
  then show ?case by (simp add: dt_le_def)
next
  case (Cons t ts)
  show ?case
    using Cons.IH [of "if dt_less t best then t else best"]
    by (auto simp: dt_le_def dt_less_def)
qed

lemma should_be_scanning_closed:
  assumes "\<forall>(s_id, cfg) \<in> set sessions. \<not> (start_hour cfg \<le> curr_h \<and> curr_h < end_hour cfg)"
  shows "should_be_scanning curr_h state sessions flag = Inr flag"
  using assms by (induction sessions arbitrary: flag) auto

lemma py_min_least:
  assumes "xs \<noteq> []"
  shows "\<exists>next_event. py_min xs = Inr next_event \<and> next_event \<in> set xs
           \<and> (\<forall>u \<in> set xs. dt_le next_event u)"
proof (cases xs)
  case Nil
  then show ?thesis using assms by simp
next
  case (Cons t ts)
  then show ?thesis using min_datetime_least [of t ts] by simp
qed

text \<open>
  C9. Let no session window be open at the hour \<open>curr_h\<close> and no trade be active (and
  let \<open>now\<close> be a clock reading, every start hour an hour of the day). Then
  \<open>should_be_scanning\<close> is false, and the delay \<open>_wait_until_next_event\<close> computes is:
  in the weekend span (Friday from 14:00, and Saturday) the seconds from \<open>now\<close> to the
  next Sunday 15:00; otherwise the seconds from \<open>now\<close> to the earliest of each
  session's next start-hour occurrence and the next 23:59, plus 30. The monitor cycle
  sleeps for that delay when it exceeds 60 seconds and connects otherwise. Seconds are
  exact here; the rounding of Python's float is not modelled.
\<close>

theorem next_wake_delay:
  assumes now: "valid_datetime now"
    and hours: "\<forall>(s_id, cfg) \<in> set sessions. 0 \<le> start_hour cfg \<and> start_hour cfg < 24"
    and closed: "\<forall>(s_id, cfg) \<in> set sessions.
                   \<not> (start_hour cfg \<le> curr_h \<and> curr_h < end_hour cfg)"
    and idle: "active_trades state = []"
  shows "should_be_scanning curr_h state sessions False = Inr False
       \<and> ((weekday now = 4 \<and> hour now \<ge> 14) \<or> weekday now = 5 \<longrightarrow>
            (\<exists>t. next_sunday_open now t
                 \<and> wait_until_next_event sessions now = Inr (total_seconds t now)))
       \<and> (\<not> ((weekday now = 4 \<and> hour now \<ge> 14) \<or> weekday now = 5) \<longrightarrow>
            (\<exists>events reset next_event.
                 list_all2 (\<lambda>cfg t. next_occurrence now (start_hour cfg) 0 t)
                   (map snd sessions) events
               \<and> next_occurrence now 23 59 reset
               \<and> next_event \<in> set (events @ [reset])
               \<and> (\<forall>u \<in> set (events @ [reset]). dt_le next_event u)
               \<and> wait_until_next_event sessions now
                   = Inr (total_seconds next_event now + 30)))
       \<and> sleep_or_connect sessions curr_h now state
           = (case wait_until_next_event sessions now of
                Inl e \<Rightarrow> Inl e
              | Inr wait_sec \<Rightarrow> Inr (if wait_sec > 60 then SleepFor wait_sec else Connect))"
proof (intro conjI impI)
  show scan: "should_be_scanning curr_h state sessions False = Inr False"
    using should_be_scanning_closed [OF closed] .
  show "sleep_or_connect sessions curr_h now state
           = (case wait_until_next_event sessions now of
                Inl e \<Rightarrow> Inl e
              | Inr wait_sec \<Rightarrow> Inr (if wait_sec > 60 then SleepFor wait_sec else Connect))"
    using scan idle by (simp add: sleep_or_connect_def split: sum.splits)
next
  assume wk: "(weekday now = 4 \<and> hour now \<ge> 14) \<or> weekday now = 5"
  obtain t where t: "replace_hm (add_days now (6 - weekday now)) 15 0 = Inr t"
    by (simp add: replace_hm_def)
  have "next_sunday_open now t"
    using next_sunday_open_replace [OF now wk t] .
  moreover have "wait_until_next_event sessions now = Inr (total_seconds t now)"
    using wk t by (simp add: wait_until_next_event_def)
  ultimately show "\<exists>t. next_sunday_open now t
                 \<and> wait_until_next_event sessions now = Inr (total_seconds t now)"
    by blast
next
  assume wk: "\<not> ((weekday now = 4 \<and> hour now \<ge> 14) \<or> weekday now = 5)"
  have "\<forall>cfg \<in> set (map snd sessions). 0 \<le> start_hour cfg \<and> start_hour cfg < 24"
    using hours by auto
  then obtain events where ev: "session_events now (map snd sessions) = Inr events"
      "list_all2 (\<lambda>cfg t. next_occurrence now (start_hour cfg) 0 t) (map snd sessions) events"
    using session_events_next [OF now] by blast
  obtain t where t: "replace_hm now 23 59 = Inr t"
    by (simp add: replace_hm_def)
  define reset where "reset = (if dt_le t now then add_days t 1 else t)"
  have reset: "next_occurrence now 23 59 reset"
    unfolding reset_def using next_occurrence_replace [OF now _ _ _ _ t] by simp
  obtain next_event where pm: "py_min (events @ [reset]) = Inr next_event"
    and least: "next_event \<in> set (events @ [reset])
                 \<and> (\<forall>u \<in> set (events @ [reset]). dt_le next_event u)"
    using py_min_least [of "events @ [reset]"] by auto
  have "wait_until_next_event sessions now = Inr (total_seconds next_event now + 30)"
    using wk ev(1) t pm by (auto simp: wait_until_next_event_def reset_def Let_def)
  then show "\<exists>events reset next_event.
                 list_all2 (\<lambda>cfg t. next_occurrence now (start_hour cfg) 0 t)
                   (map snd sessions) events
               \<and> next_occurrence now 23 59 reset
               \<and> next_event \<in> set (events @ [reset])
               \<and> (\<forall>u \<in> set (events @ [reset]). dt_le next_event u)
               \<and> wait_until_next_event sessions now
                   = Inr (total_seconds next_event now + 30)"
    using ev(2) reset least by blast
qed

theorem next_wake_delay_witness:
  "valid_datetime (at_time 10 30) \<and> active_trades levels_loaded_state = []
   \<and> should_be_scanning 10 levels_loaded_state SESSIONS False = Inr False
   \<and> wait_until_next_event SESSIONS (at_time 10 30) = Inr 45030
   \<and> sleep_or_connect SESSIONS 10 (at_time 10 30) levels_loaded_state = Inr (SleepFor 45030)
   \<and> valid_datetime saturday_morning
   \<and> wait_until_next_event SESSIONS saturday_morning = Inr 102600
   \<and> sleep_or_connect SESSIONS 10 saturday_morning levels_loaded_state
       = Inr (SleepFor 102600)"
proof -
  have v: "valid_datetime (at_time 10 30)"
    by (simp add: valid_datetime_def at_time_def)
  have vs: "valid_datetime saturday_morning"
    by (simp add: valid_datetime_def saturday_morning_def)
  have hrs: "\<forall>(s_id, cfg) \<in> set SESSIONS. 0 \<le> start_hour cfg \<and> start_hour cfg < 24"
    by (simp add: SESSIONS_def)
  have cl: "\<forall>(s_id, cfg) \<in> set SESSIONS. \<not> (start_hour cfg \<le> 10 \<and> 10 < end_hour cfg)"
    by (simp add: SESSIONS_def)
  have idle: "active_trades levels_loaded_state = []"
    by (simp add: levels_loaded_state_def)
  have w: "wait_until_next_event SESSIONS (at_time 10 30) = Inr 45030"
    by (simp add: wait_until_next_event_def SESSIONS_def at_time_def weekday_def
        replace_hm_def dt_le_def dt_less_def to_microseconds_def add_days_def
        total_seconds_def Let_def)
  have ws: "wait_until_next_event SESSIONS saturday_morning = Inr 102600"
    by (simp add: wait_until_next_event_def SESSIONS_def saturday_morning_def weekday_def
        replace_hm_def dt_le_def dt_less_def to_microseconds_def add_days_def
        total_seconds_def Let_def)
  have a: "should_be_scanning 10 levels_loaded_state SESSIONS False = Inr False"
    and b: "sleep_or_connect SESSIONS 10 (at_time 10 30) levels_loaded_state
              = Inr (SleepFor 45030)"
    using next_wake_delay [OF v hrs cl idle] w by simp_all
  have c: "sleep_or_connect SESSIONS 10 saturday_morning levels_loaded_state
              = Inr (SleepFor 102600)"
    using next_wake_delay [OF vs hrs cl idle] ws by simp
  show ?thesis
    using v vs idle w ws a b c by (intro conjI)
qed

end
